theory Spec2Isabelle
  imports Main
begin

section \<open>The Connection class of uPyLoader (src/connection.py)\<close>

text \<open>
  \<open>Connection\<close> is the base class of the transports that talk to a MicroPython REPL.
  Its primitives (\<open>is_connected\<close>, \<open>disconnect\<close>, \<open>read_line\<close>, \<open>read_all\<close>,
  \<open>send_line\<close>, \<open>send_character\<close>, \<open>list_files\<close>, \<open>write_file\<close>, \<open>read_file\<close>)
  raise \<open>NotImplementedError\<close>; a concrete transport overrides them. The methods with a
  body (\<open>read_junk\<close>, \<open>run_file\<close>, \<open>remove_file\<close>, \<open>send_start_paste\<close>,
  \<open>send_end_paste\<close>, \<open>send_kill\<close>, \<open>_reader_thread_routine\<close>) call the primitives
  through \<open>self\<close>, that is, through whatever the object's class provides.
\<close>

subsection \<open>Errors and results\<close>

text \<open>
  The exceptions that the code can raise: \<open>NotImplementedError\<close> (the stubs),
  \<open>TypeError\<close> (a call that leaves out a required argument), \<open>IndexError\<close>
  (\<open>str.format\<close> with a field and no argument left), \<open>RuntimeError\<close> (releasing a lock
  that is not locked), and \<open>Exception name\<close> for anything an overriding method raises.
\<close>

datatype error =
    NotImplementedError
  | TypeError
  | IndexError
  | RuntimeError
  | Exception string

text \<open>
  A method call takes the object and gives back the object as the call left it, with either
  the value returned (\<open>Inr\<close>) or the exception raised (\<open>Inl\<close>). Statements in sequence
  stop at the first raise and keep the object as it was at that point.
\<close>

type_synonym ('a, 'c) action = "'c \<Rightarrow> (error + 'a) \<times> 'c"

definition raise :: "error \<Rightarrow> ('a, 'c) action" where
  "raise e = (\<lambda>c. (Inl e, c))"

definition return :: "'a \<Rightarrow> ('a, 'c) action" where
  "return x = (\<lambda>c. (Inr x, c))"

definition bind_do :: "('a, 'c) action \<Rightarrow> ('a \<Rightarrow> ('b, 'c) action) \<Rightarrow> ('b, 'c) action" where
  "bind_do f g = (\<lambda>c. case f c of (Inl e, c') \<Rightarrow> (Inl e, c') | (Inr x, c') \<Rightarrow> g x c')"

definition then_do :: "('a, 'c) action \<Rightarrow> ('b, 'c) action \<Rightarrow> ('b, 'c) action" where
  "then_do f g = bind_do f (\<lambda>x. g)"

subsection \<open>The object\<close>

text \<open>
  The attributes that \<open>__init__\<close> sets: \<open>_reader_running = False\<close>,
  \<open>_auto_read_enabled = True\<close>, \<open>_auto_reader_lock = Lock()\<close>. A \<open>threading.Lock\<close> is
  either locked or not and has no owner, so it is a \<open>bool\<close> (\<open>True\<close> is locked).
  \<open>_terminal\<close> is stored and never read by this class; it is left out. A subclass adds
  its own attributes: they are the extension of the record.
\<close>

record Connection =
  reader_running :: bool
  auto_read_enabled :: bool
  auto_reader_lock :: bool

definition Connection_init :: Connection where
  "Connection_init =
     \<lparr>reader_running = False, auto_read_enabled = True, auto_reader_lock = False\<rparr>"

text \<open>
  What \<open>read_line\<close> returns is compared with the \<open>str\<close> \<open>""\<close> in line 61. In Python
  a \<open>bytes\<close> object or \<open>None\<close> is never equal to a \<open>str\<close>, so \<open>b"" == ""\<close> is false:
  the value keeps its type.
\<close>

datatype pyval = Str string | Bytes string | PyNone

text \<open>
  The overridable primitives of a class, as the table that \<open>self.name(...)\<close> looks the
  method up in. \<open>'c\<close> is the type of the object. \<open>send_line_ending_default\<close> is the
  default value that the class's \<open>send_line\<close> declares for its parameter \<open>ending\<close>,
  \<open>None\<close> when the parameter is required. The texts that the class passes on to the
  primitives, \<open>str\<close> or \<open>bytes\<close>, are \<open>string\<close>; what \<open>read_line\<close> returns is a
  \<open>pyval\<close>.
\<close>

record 'c methods =
  is_connected :: "(bool, 'c) action"
  disconnect :: "(unit, 'c) action"
  read_line :: "(pyval, 'c) action"
  read_all :: "(string, 'c) action"
  send_line :: "string \<Rightarrow> string \<Rightarrow> (unit, 'c) action"
  send_line_ending_default :: "string option"
  send_character :: "string \<Rightarrow> (unit, 'c) action"
  list_files :: "(string list, 'c) action"
  write_file :: "string \<Rightarrow> string \<Rightarrow> (unit, 'c) action"
  read_file :: "string \<Rightarrow> (string, 'c) action"

text \<open>
  The primitives as \<open>Connection\<close> itself defines them: every one raises
  \<open>NotImplementedError\<close>, and \<open>send_line(self, line_text, ending)\<close> has no default for
  \<open>ending\<close>.
\<close>

definition Connection_methods :: "'c methods" where
  "Connection_methods =
     \<lparr>is_connected = (\<lambda>c. (Inl NotImplementedError, c)),
      disconnect = (\<lambda>c. (Inl NotImplementedError, c)),
      read_line = (\<lambda>c. (Inl NotImplementedError, c)),
      read_all = (\<lambda>c. (Inl NotImplementedError, c)),
      send_line = (\<lambda>line_text ending c. (Inl NotImplementedError, c)),
      send_line_ending_default = None,
      send_character = (\<lambda>char c. (Inl NotImplementedError, c)),
      list_files = (\<lambda>c. (Inl NotImplementedError, c)),
      write_file = (\<lambda>file_name text c. (Inl NotImplementedError, c)),
      read_file = (\<lambda>file_name c. (Inl NotImplementedError, c))\<rparr>"

text \<open>
  A call \<open>self.send_line(line_text)\<close> or \<open>self.send_line(line_text, ending)\<close>: Python
  binds the arguments before it runs the body, and raises \<open>TypeError\<close> when a parameter
  without a default gets no argument.
\<close>

definition call_send_line :: "'c methods \<Rightarrow> string \<Rightarrow> string option \<Rightarrow> (unit, 'c) action" where
  "call_send_line m line_text ending =
     (case ending of
        Some e \<Rightarrow> send_line m line_text e
      | None \<Rightarrow>
          (case send_line_ending_default m of
             Some d \<Rightarrow> send_line m line_text d
           | None \<Rightarrow> raise TypeError))"

subsection \<open>String formatting\<close>

text \<open>
  \<open>template.format(args)\<close> for the templates of this class: literal text and fields
  written \<open>{}\<close>, each replaced by the next argument as it is. A field with no argument left
  raises \<open>IndexError\<close>. (Numbered fields, conversions and doubled braces do not occur in
  the templates and are not modelled.)
\<close>

fun format_str :: "string \<Rightarrow> string list \<Rightarrow> error + string" where
  "format_str [] args = Inr []"
| "format_str [c] args = Inr [c]"
| "format_str (c # d # rest) args =
     (if c = CHR ''{'' \<and> d = CHR ''}'' then
        (case args of
           [] \<Rightarrow> Inl IndexError
         | a # args' \<Rightarrow> map_sum id ((@) a) (format_str rest args'))
      else map_sum id ((#) c) (format_str (d # rest) args))"

definition evaluate :: "error + 'a \<Rightarrow> ('a, 'c) action" where
  "evaluate r = (case r of Inl e \<Rightarrow> raise e | Inr x \<Rightarrow> return x)"

subsection \<open>The methods with a body\<close>

definition read_junk :: "'c methods \<Rightarrow> (unit, 'c) action" where
  "read_junk m = then_do (read_all m) (return ())"

definition send_start_paste :: "'c methods \<Rightarrow> (unit, 'c) action" where
  "send_start_paste m = send_character m [CHR 0x05]"

definition send_end_paste :: "'c methods \<Rightarrow> (unit, 'c) action" where
  "send_end_paste m = send_character m [CHR 0x04]"

definition send_kill :: "'c methods \<Rightarrow> (unit, 'c) action" where
  "send_kill m = send_character m [CHR 0x03]"

text \<open>
  \<open>if globals_init:\<close> is true of a string exactly when it is not empty. The ending
  \<open>b"\r"\<close> is the one byte \<open>0x0D\<close>.
\<close>

definition run_file :: "'c methods \<Rightarrow> string \<Rightarrow> string \<Rightarrow> (unit, 'c) action" where
  "run_file m file_name globals_init =
     then_do (send_start_paste m)
    (then_do (if globals_init \<noteq> [] then call_send_line m globals_init (Some [CHR 0x0D])
              else return ())
    (bind_do (evaluate (format_str ''with open(\"{}\") as f:'' [file_name])) (\<lambda>line.
     then_do (call_send_line m line (Some [CHR 0x0D]))
    (then_do (call_send_line m ''    exec(f.read(), globals())'' (Some [CHR 0x0D]))
             (send_end_paste m)))))"

definition remove_file :: "'c methods \<Rightarrow> string \<Rightarrow> (unit, 'c) action" where
  "remove_file m file_name =
     bind_do (evaluate (format_str ''import os; os.remove(\"{}\")'' [file_name])) (\<lambda>line.
     call_send_line m line None)"

subsection \<open>A transport for running the class\<close>

text \<open>
  Modelled from the spec: the concrete transports (serial port, network socket) are not
  part of the source. \<open>Loopback\<close> is a subclass that overrides three primitives the way
  the specification describes them: \<open>sendLine(text, lineEnding)\<close> writes \<open>text\<close>
  followed by \<open>lineEnding\<close>, \<open>sendCharacter(ch)\<close> writes the single byte, and
  \<open>readLine()\<close> gives the next incoming line as a \<open>str\<close>, the empty one when there is
  none.
  \<open>written\<close> is what has been written so far, one entry for each write; \<open>inbound\<close> are
  the lines that the device has sent and nobody has read. Its \<open>send_line\<close> keeps the signature
  that \<open>Connection\<close> declares; the other primitives are inherited.
\<close>

record Loopback = Connection +
  written :: "string list"
  inbound :: "string list"

definition Loopback_init :: Loopback where
  "Loopback_init =
     \<lparr>reader_running = False, auto_read_enabled = True, auto_reader_lock = False,
      written = [], inbound = []\<rparr>"

definition Loopback_read_line :: "(pyval, Loopback) action" where
  "Loopback_read_line c =
     (case inbound c of
        [] \<Rightarrow> (Inr (Str []), c)
      | l # ls \<Rightarrow> (Inr (Str l), c\<lparr>inbound := ls\<rparr>))"

definition Loopback_methods :: "Loopback methods" where
  "Loopback_methods =
     Connection_methods
       \<lparr>read_line := Loopback_read_line,
        send_line := (\<lambda>line_text ending c. (Inr (), c\<lparr>written := written c @ [line_text @ ending]\<rparr>)),
        send_character := (\<lambda>char c. (Inr (), c\<lparr>written := written c @ [char]\<rparr>))\<rparr>"

subsection \<open>Threads: the reader routine and run_file, one source line at a time\<close>

text \<open>
  What a thread does that another thread or the transport can observe: the calls of the
  sending primitives with their arguments (\<open>None\<close> is an \<open>ending\<close> left out), the
  operations on \<open>_auto_reader_lock\<close>, a call of \<open>read_line\<close> with what it returned or
  raised, and \<open>time.sleep\<close> with its duration in milliseconds (\<open>0.1\<close> seconds is
  \<open>100\<close>).
\<close>

datatype event =
    SendCharacter string
  | SendLine string "string option"
  | Acquire
  | Release
  | ReadLine "error + pyval"
  | Sleep nat

text \<open>
  \<open>_reader_thread_routine\<close> as a machine whose control points are the lines of the
  source; \<open>R60\<close> and \<open>R61\<close> carry the local \<open>x\<close>.
  \<^item> \<open>R54\<close>: \<open>self._reader_running = True\<close>
  \<^item> \<open>R55\<close>: \<open>while self._reader_running:\<close>
  \<^item> \<open>R56\<close>: \<open>self._auto_reader_lock.acquire()\<close>, which waits while the lock is
    locked: the thread has no step then
  \<^item> \<open>R57\<close>: \<open>x = ""\<close>, and \<open>x = self.read_line()\<close> if \<open>self._auto_read_enabled\<close>
  \<^item> \<open>R60\<close>: \<open>self._auto_reader_lock.release()\<close>, which raises \<open>RuntimeError\<close> on a
    lock that is not locked
  \<^item> \<open>R61\<close>: \<open>time.sleep(0.1 if x == "" else 0)\<close>
  \<^item> \<open>RReturned\<close>: the loop has ended and the routine has returned
  \<^item> \<open>RRaised e\<close>: the routine has ended with the exception \<open>e\<close>, which nothing in it
    catches
\<close>

datatype reader_pc = R54 | R55 | R56 | R57 | R60 pyval | R61 pyval | RReturned | RRaised error

fun reader_thread_routine_step ::
  "'a Connection_scheme methods \<Rightarrow> reader_pc \<Rightarrow> 'a Connection_scheme \<Rightarrow>
     (event list \<times> reader_pc \<times> 'a Connection_scheme) option" where
  "reader_thread_routine_step m R54 c = Some ([], R55, c\<lparr>reader_running := True\<rparr>)"
| "reader_thread_routine_step m R55 c =
     Some ([], if reader_running c then R56 else RReturned, c)"
| "reader_thread_routine_step m R56 c =
     (if auto_reader_lock c then None
      else Some ([Acquire], R57, c\<lparr>auto_reader_lock := True\<rparr>))"
| "reader_thread_routine_step m R57 c =
     (if auto_read_enabled c then
        (case read_line m c of
           (Inl e, c') \<Rightarrow> Some ([ReadLine (Inl e)], RRaised e, c')
         | (Inr x, c') \<Rightarrow> Some ([ReadLine (Inr x)], R60 x, c'))
      else Some ([], R60 (Str []), c))"
| "reader_thread_routine_step m (R60 x) c =
     (if auto_reader_lock c then Some ([Release], R61 x, c\<lparr>auto_reader_lock := False\<rparr>)
      else Some ([], RRaised RuntimeError, c))"
| "reader_thread_routine_step m (R61 x) c =
     Some ([Sleep (if x = Str [] then 100 else 0)], R55, c)"
| "reader_thread_routine_step m RReturned c = None"
| "reader_thread_routine_step m (RRaised e) c = None"

text \<open>
  The routine run alone for at most \<open>n\<close> steps: the events in order, where it stands and
  the object. It stops early where the thread has no step (finished, or waiting for the
  lock).
\<close>

fun reader_thread_routine ::
  "'a Connection_scheme methods \<Rightarrow> nat \<Rightarrow> reader_pc \<Rightarrow> 'a Connection_scheme \<Rightarrow>
     event list \<times> reader_pc \<times> 'a Connection_scheme" where
  "reader_thread_routine m 0 pc c = ([], pc, c)"
| "reader_thread_routine m (Suc n) pc c =
     (case reader_thread_routine_step m pc c of
        None \<Rightarrow> ([], pc, c)
      | Some (evs, pc', c') \<Rightarrow>
          (case reader_thread_routine m n pc' c' of
             (evs', pc'', c'') \<Rightarrow> (evs @ evs', pc'', c'')))"



text \<open>
  \<open>run_file\<close> in the same way; \<open>F35\<close> is the \<open>if globals_init:\<close> with its body
  (line 36). \<open>after evs pc r\<close> is the step of a line that makes one call: the call is
  recorded as \<open>evs\<close>, and the thread goes on to \<open>pc\<close> when the call returned and ends
  with the error when it raised.
\<close>

datatype run_file_pc = F34 | F35 | F37 | F38 | F39 | FReturned | FRaised error

definition after :: "event list \<Rightarrow> run_file_pc \<Rightarrow> (error + unit) \<times> 'c \<Rightarrow>
    (event list \<times> run_file_pc \<times> 'c) option" where
  "after evs pc r =
     (case r of
        (Inl e, c') \<Rightarrow> Some (evs, FRaised e, c')
      | (Inr u, c') \<Rightarrow> Some (evs, pc, c'))"

fun run_file_step ::
  "'c methods \<Rightarrow> string \<Rightarrow> string \<Rightarrow> run_file_pc \<Rightarrow> 'c \<Rightarrow>
     (event list \<times> run_file_pc \<times> 'c) option" where
  "run_file_step m file_name globals_init F34 c =
     after [SendCharacter [CHR 0x05]] F35 (send_start_paste m c)"
| "run_file_step m file_name globals_init F35 c =
     (if globals_init \<noteq> [] then
        after [SendLine globals_init (Some [CHR 0x0D])] F37
          (call_send_line m globals_init (Some [CHR 0x0D]) c)
      else Some ([], F37, c))"
| "run_file_step m file_name globals_init F37 c =
     (case format_str ''with open(\"{}\") as f:'' [file_name] of
        Inl e \<Rightarrow> Some ([], FRaised e, c)
      | Inr line \<Rightarrow>
          after [SendLine line (Some [CHR 0x0D])] F38 (call_send_line m line (Some [CHR 0x0D]) c))"
| "run_file_step m file_name globals_init F38 c =
     after [SendLine ''    exec(f.read(), globals())'' (Some [CHR 0x0D])] F39
       (call_send_line m ''    exec(f.read(), globals())'' (Some [CHR 0x0D]) c)"
| "run_file_step m file_name globals_init F39 c =
     after [SendCharacter [CHR 0x04]] FReturned (send_end_paste m c)"
| "run_file_step m file_name globals_init FReturned c = None"
| "run_file_step m file_name globals_init (FRaised e) c = None"

text \<open>\<open>run_file\<close> run alone for at most \<open>n\<close> steps.\<close>

fun run_file_thread ::
  "'c methods \<Rightarrow> string \<Rightarrow> string \<Rightarrow> nat \<Rightarrow> run_file_pc \<Rightarrow> 'c \<Rightarrow>
     event list \<times> run_file_pc \<times> 'c" where
  "run_file_thread m file_name globals_init 0 pc c = ([], pc, c)"
| "run_file_thread m file_name globals_init (Suc n) pc c =
     (case run_file_step m file_name globals_init pc c of
        None \<Rightarrow> ([], pc, c)
      | Some (evs, pc', c') \<Rightarrow>
          (case run_file_thread m file_name globals_init n pc' c' of
             (evs', pc'', c'') \<Rightarrow> (evs @ evs', pc'', c'')))"

text \<open>Where the thread stands once a call of \<open>run_file\<close> with result \<open>r\<close> is over.\<close>

definition outcome :: "(error + unit) \<times> 'c \<Rightarrow> run_file_pc \<times> 'c" where
  "outcome r = (case r of (Inl e, c) \<Rightarrow> (FRaised e, c) | (Inr u, c) \<Rightarrow> (FReturned, c))"

text \<open>
  The two threads on one object. A schedule names the thread that takes the next step; it
  is not a run when it names a thread that has no step. The trace is the events in order,
  each with its thread.
\<close>

datatype thread = Foreground | Reader

definition system_step ::
  "'a Connection_scheme methods \<Rightarrow> string \<Rightarrow> string \<Rightarrow> thread \<Rightarrow>
     run_file_pc \<times> reader_pc \<times> 'a Connection_scheme \<Rightarrow>
     ((thread \<times> event) list \<times> run_file_pc \<times> reader_pc \<times> 'a Connection_scheme) option" where
  "system_step m file_name globals_init t s =
     (case s of (fpc, rpc, c) \<Rightarrow>
        (case t of
           Foreground \<Rightarrow>
             (case run_file_step m file_name globals_init fpc c of
                None \<Rightarrow> None
              | Some (evs, fpc', c') \<Rightarrow> Some (map (Pair Foreground) evs, fpc', rpc, c'))
         | Reader \<Rightarrow>
             (case reader_thread_routine_step m rpc c of
                None \<Rightarrow> None
              | Some (evs, rpc', c') \<Rightarrow> Some (map (Pair Reader) evs, fpc, rpc', c'))))"

fun system_run ::
  "'a Connection_scheme methods \<Rightarrow> string \<Rightarrow> string \<Rightarrow> thread list \<Rightarrow>
     run_file_pc \<times> reader_pc \<times> 'a Connection_scheme \<Rightarrow>
     ((thread \<times> event) list \<times> run_file_pc \<times> reader_pc \<times> 'a Connection_scheme) option" where
  "system_run m file_name globals_init [] s = Some ([], s)"
| "system_run m file_name globals_init (t # ts) s =
     (case system_step m file_name globals_init t s of
        None \<Rightarrow> None
      | Some (evs, s') \<Rightarrow>
          (case system_run m file_name globals_init ts s' of
             None \<Rightarrow> None
           | Some (evs', s'') \<Rightarrow> Some (evs @ evs', s'')))"

text \<open>
  Whether, in a trace, the reader calls \<open>read_line\<close> after the foreground has sent
  start-paste and before it has sent end-paste. \<open>inside\<close> says whether a paste session is
  open where the trace starts.
\<close>

fun reads_in_session :: "bool \<Rightarrow> (thread \<times> event) list \<Rightarrow> bool" where
  "reads_in_session inside [] = False"
| "reads_in_session inside ((Foreground, SendCharacter ch) # tr) =
     (if ch = [CHR 0x05] then reads_in_session True tr
      else if ch = [CHR 0x04] then reads_in_session False tr
      else reads_in_session inside tr)"
| "reads_in_session inside ((Reader, ReadLine r) # tr) = (inside \<or> reads_in_session inside tr)"
| "reads_in_session inside (ev # tr) = reads_in_session inside tr"

definition is_send :: "event \<Rightarrow> bool" where
  "is_send ev = (case ev of SendCharacter ch \<Rightarrow> True | SendLine l e \<Rightarrow> True | _ \<Rightarrow> False)"

subsection \<open>The operations that the source only declares\<close>

text \<open>
  Modelled from the spec: the source declares \<open>is_connected\<close>, \<open>disconnect\<close>,
  \<open>read_line\<close>, \<open>read_all\<close>, \<open>send_line\<close>, \<open>send_character\<close>, \<open>list_files\<close>,
  \<open>write_file\<close> and \<open>read_file\<close> (lines 12 to 31 and 63 to 70) and gives them no body;
  the classes that implement them are not part of it. \<open>Device\<close> is a Connection as the
  specification describes one. It has the attribute \<open>connected\<close>; \<open>sent\<close> is what has
  been written to the transport, one entry for each write; \<open>incoming\<close> are the lines that
  the device has sent and nobody has read; \<open>remote_files\<close> are the files of the device,
  name and content, in the order of its listing.
  \<^item> Every operation but \<open>isConnected\<close> and \<open>disconnect\<close> fails with \<open>NotConnected\<close>
    while \<open>connected\<close> is false.
  \<^item> \<open>isConnected()\<close> is a pure status query.
  \<^item> \<open>disconnect()\<close> stops the background reader (it sets the running flag false) and
    releases the transport; while already disconnected it is a no-op. That it waits for
    the reader is not part of this sequential description.
  \<^item> \<open>readLine()\<close> gives one line, the empty string when there is none; \<open>readAll()\<close>
    drains what is buffered.
  \<^item> \<open>sendLine(text, lineEnding)\<close> writes \<open>text\<close> followed by \<open>lineEnding\<close>, the ending
    given by the caller at each call; \<open>sendCharacter(ch)\<close> writes the byte.
\<close>

record Device = Connection +
  connected :: bool
  sent :: "string list"
  incoming :: "string list"
  remote_files :: "(string \<times> string) list"

definition Device_init :: Device where
  "Device_init =
     \<lparr>reader_running = False, auto_read_enabled = True, auto_reader_lock = False,
      connected = False, sent = [], incoming = [], remote_files = []\<rparr>"

definition Device_is_connected :: "(bool, Device) action" where
  "Device_is_connected c = (Inr (connected c), c)"

definition Device_disconnect :: "(unit, Device) action" where
  "Device_disconnect c =
     (if connected c then (Inr (), c\<lparr>reader_running := False, connected := False\<rparr>)
      else (Inr (), c))"

definition Device_read_line :: "(pyval, Device) action" where
  "Device_read_line c =
     (if \<not> connected c then (Inl (Exception ''NotConnected''), c)
      else
        (case incoming c of
           [] \<Rightarrow> (Inr (Str []), c)
         | l # ls \<Rightarrow> (Inr (Str l), c\<lparr>incoming := ls\<rparr>)))"

definition Device_read_all :: "(string, Device) action" where
  "Device_read_all c =
     (if \<not> connected c then (Inl (Exception ''NotConnected''), c)
      else (Inr (concat (incoming c)), c\<lparr>incoming := []\<rparr>))"

definition Device_send_line :: "string \<Rightarrow> string \<Rightarrow> (unit, Device) action" where
  "Device_send_line line_text ending c =
     (if \<not> connected c then (Inl (Exception ''NotConnected''), c)
      else (Inr (), c\<lparr>sent := sent c @ [line_text @ ending]\<rparr>))"

definition Device_send_character :: "string \<Rightarrow> (unit, Device) action" where
  "Device_send_character char c =
     (if \<not> connected c then (Inl (Exception ''NotConnected''), c)
      else (Inr (), c\<lparr>sent := sent c @ [char]\<rparr>))"

definition Device_transport :: "Device methods" where
  "Device_transport =
     Connection_methods
       \<lparr>is_connected := Device_is_connected,
        disconnect := Device_disconnect,
        read_line := Device_read_line,
        read_all := Device_read_all,
        send_line := Device_send_line,
        send_character := Device_send_character\<rparr>"

text \<open>
  Modelled from the spec: the paste-mode protocol, shared by \<open>runFile\<close> and any
  multi-line injection: the start-paste byte, each source line followed by the line
  ending, the end-paste byte. The ending is the one that \<open>run_file\<close> uses.
\<close>

fun send_lines :: "'c methods \<Rightarrow> string list \<Rightarrow> (unit, 'c) action" where
  "send_lines m [] = return ()"
| "send_lines m (l # ls) = then_do (call_send_line m l (Some [CHR 0x0D])) (send_lines m ls)"

definition paste :: "'c methods \<Rightarrow> string list \<Rightarrow> (unit, 'c) action" where
  "paste m ls = then_do (send_start_paste m) (then_do (send_lines m ls) (send_end_paste m))"

text \<open>
  Modelled from the spec: each file operation is compiled to Python source, the file name
  and, for a write, the text put between the quotes of a string literal as they are, with
  no escaping; \<open>remove_file\<close> of the source (line 42) builds its statement in this way.
  \<open>writeFile\<close> executes a snippet that opens the file for writing and writes the text,
  \<open>readFile\<close> one that reads the file and prints it, \<open>listFiles\<close> one that lists the
  directory. The specification does not give the wording of the snippets; what matters
  below is only where the name and the text are put.
\<close>

definition write_file_source :: "string \<Rightarrow> string \<Rightarrow> string list" where
  "write_file_source file_name text =
     [''with open(\"'' @ file_name @ ''\", \"w\") as f:'',
      ''    f.write(\"'' @ text @ ''\")'']"

definition read_file_source :: "string \<Rightarrow> string list" where
  "read_file_source file_name =
     [''with open(\"'' @ file_name @ ''\") as f:'',
      ''    print(f.read())'']"

definition list_files_source :: "string list" where
  "list_files_source = [''import os'', ''print(os.listdir())'']"

text \<open>
  Modelled from the spec: the device runs Python. How Python reads a string literal that
  opens with a double quote: the literal ends at the next double quote; a line break
  before that, or the end of the line, is a syntax error, and then nothing of the pasted
  block is executed. A backslash starts an escape sequence; escapes are outside this
  description, and so is every pasted block that is not one of the two snippets with
  their literals read to the end: \<open>Not_modelled\<close> says that the description gives no
  outcome.
\<close>

datatype 'a parsed = Parsed 'a | Syntax_error | Not_modelled

fun strip_prefix :: "string \<Rightarrow> string \<Rightarrow> string option" where
  "strip_prefix [] s = Some s"
| "strip_prefix (p # ps) [] = None"
| "strip_prefix (p # ps) (ch # s) = (if p = ch then strip_prefix ps s else None)"

fun literal_body :: "string \<Rightarrow> (string \<times> string) parsed" where
  "literal_body [] = Syntax_error"
| "literal_body (ch # rest) =
     (if ch = CHR 0x22 then Parsed ([], rest)
      else if ch = CHR 0x0A \<or> ch = CHR 0x0D then Syntax_error
      else if ch = CHR 0x5C then Not_modelled
      else
        (case literal_body rest of
           Parsed (s, r) \<Rightarrow> Parsed (ch # s, r)
         | Syntax_error \<Rightarrow> Syntax_error
         | Not_modelled \<Rightarrow> Not_modelled))"

text \<open>
  Modelled from the spec: a line of a snippet as the device reads it, that is,
  \<open>front\<close>, a literal and \<open>behind\<close>; \<open>front\<close> ends with the opening quote.
\<close>

definition literal_line :: "string \<Rightarrow> string \<Rightarrow> string \<Rightarrow> string parsed" where
  "literal_line front behind l =
     (case strip_prefix front l of
        None \<Rightarrow> Not_modelled
      | Some r \<Rightarrow>
          (case literal_body r of
             Parsed (s, r') \<Rightarrow> if r' = behind then Parsed s else Not_modelled
           | Syntax_error \<Rightarrow> Syntax_error
           | Not_modelled \<Rightarrow> Not_modelled))"

definition parse_write :: "string list \<Rightarrow> (string \<times> string) parsed" where
  "parse_write ls =
     (case ls of
        [l1, l2] \<Rightarrow>
          (case literal_line ''with open(\"'' '', \"w\") as f:'' l1 of
             Parsed file_name \<Rightarrow>
               (case literal_line ''    f.write(\"'' '')'' l2 of
                  Parsed text \<Rightarrow> Parsed (file_name, text)
                | Syntax_error \<Rightarrow> Syntax_error
                | Not_modelled \<Rightarrow> Not_modelled)
           | Syntax_error \<Rightarrow> Syntax_error
           | Not_modelled \<Rightarrow> Not_modelled)
      | _ \<Rightarrow> Not_modelled)"

definition parse_read :: "string list \<Rightarrow> string parsed" where
  "parse_read ls =
     (case ls of
        [l1, l2] \<Rightarrow>
          (if l2 = ''    print(f.read())'' then literal_line ''with open(\"'' '') as f:'' l1
           else Not_modelled)
      | _ \<Rightarrow> Not_modelled)"

text \<open>
  Modelled from the spec: writing a file on the device; the content of an existing name
  is replaced.
\<close>

fun store :: "string \<Rightarrow> string \<Rightarrow> (string \<times> string) list \<Rightarrow> (string \<times> string) list" where
  "store n t [] = [(n, t)]"
| "store n t ((n', t') # fs) = (if n' = n then (n, t) # fs else (n', t') # store n t fs)"

text \<open>
  Modelled from the spec: the three file operations. Each pastes its snippet and the
  device runs what it was sent. An exception on the device (a syntax error in the pasted
  block, a file that does not exist) is reported to the caller as \<open>ProtocolError\<close>.
  \<open>readFile\<close> returns what stands between the markers that the snippet prints around the
  content, that is, the content of the file; \<open>listFiles\<close> returns the names in the order
  of the listing. No limit on the length of a line is assumed, so a text is never split
  into several pastes, and the device always answers, so no wait runs out.
  \<open>Exception ''NotModelled''\<close> is not an exception of the program: it stands for a run
  about which this description says nothing.
\<close>

definition Device_write_file :: "string \<Rightarrow> string \<Rightarrow> (unit, Device) action" where
  "Device_write_file file_name text =
     then_do (paste Device_transport (write_file_source file_name text))
       (\<lambda>c. case parse_write (write_file_source file_name text) of
              Parsed (n, t) \<Rightarrow> (Inr (), c\<lparr>remote_files := store n t (remote_files c)\<rparr>)
            | Syntax_error \<Rightarrow> (Inl (Exception ''ProtocolError''), c)
            | Not_modelled \<Rightarrow> (Inl (Exception ''NotModelled''), c))"

definition Device_read_file :: "string \<Rightarrow> (string, Device) action" where
  "Device_read_file file_name =
     then_do (paste Device_transport (read_file_source file_name))
       (\<lambda>c. case parse_read (read_file_source file_name) of
              Parsed n \<Rightarrow>
                (case map_of (remote_files c) n of
                   Some t \<Rightarrow> (Inr t, c)
                 | None \<Rightarrow> (Inl (Exception ''ProtocolError''), c))
            | Syntax_error \<Rightarrow> (Inl (Exception ''ProtocolError''), c)
            | Not_modelled \<Rightarrow> (Inl (Exception ''NotModelled''), c))"

definition Device_list_files :: "(string list, Device) action" where
  "Device_list_files =
     then_do (paste Device_transport list_files_source)
       (\<lambda>c. (Inr (map fst (remote_files c)), c))"

definition Device_methods :: "Device methods" where
  "Device_methods =
     Device_transport
       \<lparr>list_files := Device_list_files,
        write_file := Device_write_file,
        read_file := Device_read_file\<rparr>"


section \<open>Auxiliary facts\<close>

subsection \<open>The two templates\<close>

lemma format_with_open:
  "format_str ''with open(\"{}\") as f:'' [f] = Inr (''with open(\"'' @ f @ ''\") as f:'')"
  by simp

lemma format_remove:
  "format_str ''import os; os.remove(\"{}\")'' [f] =
     Inr (''import os; os.remove(\"'' @ f @ ''\")'')"
  by simp

subsection \<open>The steps of run_file\<close>

lemma after_events: "after evs pc r = Some (evs', pc', c') \<Longrightarrow> evs' = evs"
  by (auto simp: after_def split: prod.splits sum.splits)

lemma run_file_step_sends:
  "run_file_step m file_name globals_init pc c = Some (evs, pc', c') \<Longrightarrow> list_all is_send evs"
  by (cases pc) (auto simp: is_send_def dest!: after_events split: if_splits sum.splits)

lemma run_file_step_enabled:
  "(run_file_step m file_name globals_init pc c = None) =
     (pc = FReturned \<or> (\<exists>e. pc = FRaised e))"
  by (cases pc) (auto simp: after_def split: sum.splits prod.splits)

lemma system_step_foreground_sends:
  "system_step m file_name globals_init t s = Some (tr, s') \<Longrightarrow>
   list_all (\<lambda>(t', ev). t' = Foreground \<longrightarrow> is_send ev) tr"
  by (cases t)
     (auto simp: system_step_def list_all_iff dest!: run_file_step_sends
           split: prod.splits option.splits)

lemma system_run_foreground_sends:
  "system_run m file_name globals_init sched s = Some (tr, s') \<Longrightarrow>
   list_all (\<lambda>(t', ev). t' = Foreground \<longrightarrow> is_send ev) tr"
proof (induction sched arbitrary: s tr s')
  case Nil
  then show ?case by simp
next
  case (Cons t ts)
  from Cons.prems obtain evs s1 evs' where
    step: "system_step m file_name globals_init t s = Some (evs, s1)" and
    rest: "system_run m file_name globals_init ts s1 = Some (evs', s')" and
    tr: "tr = evs @ evs'"
    by (auto split: option.splits prod.splits)
  from system_step_foreground_sends [OF step] Cons.IH [OF rest] tr
  show ?case by simp
qed

text \<open>
  The machine of \<open>run_file\<close>, run alone from line 34, ends where the method
  \<open>run_file\<close> ends: returned or raised, with the same object.
\<close>

lemma thread_Suc:
  "run_file_step m f g pc c = Some (evs, pc1, c1) \<Longrightarrow>
   snd (run_file_thread m f g (Suc n) pc c) = snd (run_file_thread m f g n pc1 c1)"
  by (simp split: prod.splits)

lemma thread_Returned: "snd (run_file_thread m f g n FReturned c) = (FReturned, c)"
  by (cases n) simp_all

lemma thread_Raised: "snd (run_file_thread m f g n (FRaised e) c) = (FRaised e, c)"
  by (cases n) simp_all

lemma thread_call:
  assumes step: "run_file_step m f g pc c = after evs pc1 (a c)"
    and rest: "\<And>c1. snd (run_file_thread m f g n pc1 c1) = outcome (b c1)"
  shows "snd (run_file_thread m f g (Suc n) pc c) = outcome (then_do a b c)"
proof (cases "a c")
  case (Pair r c1)
  show ?thesis
  proof (cases r)
    case (Inl e)
    with Pair step have "run_file_step m f g pc c = Some (evs, FRaised e, c1)"
      by (simp add: after_def)
    from thread_Suc [OF this] Pair Inl show ?thesis
      by (simp add: thread_Raised outcome_def then_do_def bind_do_def)
  next
    case (Inr u)
    with Pair step have "run_file_step m f g pc c = Some (evs, pc1, c1)"
      by (simp add: after_def)
    from thread_Suc [OF this] Pair Inr rest [of c1] show ?thesis
      by (simp add: then_do_def bind_do_def)
  qed
qed

lemma thread_F39:
  "snd (run_file_thread m f g (Suc n) F39 c) = outcome (send_end_paste m c)"
proof (cases "send_end_paste m c")
  case (Pair r c1)
  then show ?thesis
    by (cases r) (simp_all add: after_def outcome_def thread_Returned thread_Raised
        del: run_file_thread.simps
        add: thread_Suc [where pc = F39])
qed

lemma thread_F38:
  "snd (run_file_thread m f g (Suc (Suc n)) F38 c) =
   outcome (then_do (call_send_line m ''    exec(f.read(), globals())'' (Some [CHR 0x0D]))
              (send_end_paste m) c)"
  by (rule thread_call) (simp, rule thread_F39)

lemma thread_F37:
  "snd (run_file_thread m f g (Suc (Suc (Suc n))) F37 c) =
   outcome (bind_do (evaluate (format_str ''with open(\"{}\") as f:'' [f])) (\<lambda>line.
            then_do (call_send_line m line (Some [CHR 0x0D]))
           (then_do (call_send_line m ''    exec(f.read(), globals())'' (Some [CHR 0x0D]))
              (send_end_paste m))) c)"
proof -
  have step: "run_file_step m f g F37 c =
      after [SendLine (''with open(\"'' @ f @ ''\") as f:'') (Some [CHR 0x0D])] F38
        (call_send_line m (''with open(\"'' @ f @ ''\") as f:'') (Some [CHR 0x0D]) c)"
    by (simp add: format_with_open del: format_str.simps)
  have "snd (run_file_thread m f g (Suc (Suc (Suc n))) F37 c) =
        outcome (then_do (call_send_line m (''with open(\"'' @ f @ ''\") as f:'') (Some [CHR 0x0D]))
           (then_do (call_send_line m ''    exec(f.read(), globals())'' (Some [CHR 0x0D]))
              (send_end_paste m)) c)"
    by (rule thread_call) (rule step, rule thread_F38)
  then show ?thesis
    by (simp add: format_with_open evaluate_def return_def bind_do_def
        del: run_file_thread.simps format_str.simps)
qed

lemma thread_F35:
  "snd (run_file_thread m f g (Suc (Suc (Suc (Suc n)))) F35 c) =
   outcome (then_do (if g \<noteq> [] then call_send_line m g (Some [CHR 0x0D]) else return ())
           (bind_do (evaluate (format_str ''with open(\"{}\") as f:'' [f])) (\<lambda>line.
            then_do (call_send_line m line (Some [CHR 0x0D]))
           (then_do (call_send_line m ''    exec(f.read(), globals())'' (Some [CHR 0x0D]))
              (send_end_paste m)))) c)"
proof (cases "g = []")
  case True
  then have "run_file_step m f g F35 c = Some ([], F37, c)" by simp
  from thread_Suc [OF this] True show ?thesis
    by (simp add: thread_F37 then_do_def bind_do_def return_def
        del: run_file_thread.simps format_str.simps)
next
  case False
  then have step: "run_file_step m f g F35 c =
      after [SendLine g (Some [CHR 0x0D])] F37 (call_send_line m g (Some [CHR 0x0D]) c)"
    by simp
  from False show ?thesis
    by (simp only: if_True not_False_eq_True) (rule thread_call, rule step, rule thread_F37)
qed

lemma five_steps: "(5::nat) = Suc (Suc (Suc (Suc (Suc 0))))"
  by simp

lemma run_file_thread_agrees:
  "snd (run_file_thread m file_name globals_init 5 F34 c) =
   outcome (run_file m file_name globals_init c)"
proof -
  have step: "run_file_step m file_name globals_init F34 c =
      after [SendCharacter [CHR 0x05]] F35 (send_start_paste m c)"
    by simp
  show ?thesis
    unfolding run_file_def five_steps
    by (rule thread_call) (rule step, rule thread_F35)
qed

lemma run_file_first_failure:
  "send_character m [CHR 0x05] c = (Inl e, c') \<Longrightarrow>
   run_file m file_name globals_init c = (Inl e, c')"
  by (simp add: run_file_def then_do_def bind_do_def send_start_paste_def)

subsection \<open>The steps of the reader routine\<close>







text \<open>
  One iteration of the loop, from the test of line 55 back to it, for whatever
  \<open>read_line\<close> returns.
\<close>

lemma routine_iteration_read:
  assumes "reader_running c" and "\<not> auto_reader_lock c" and "auto_read_enabled c"
    and "read_line m (c\<lparr>auto_reader_lock := True\<rparr>) = (Inr x, c')" and "auto_reader_lock c'"
  shows "reader_thread_routine m 5 R55 c =
           ([Acquire, ReadLine (Inr x), Release, Sleep (if x = Str [] then 100 else 0)],
            R55, c'\<lparr>auto_reader_lock := False\<rparr>)"
  using assms by (simp add: five_steps)

lemma routine_iteration_skip:
  assumes "reader_running c" and "\<not> auto_reader_lock c" and "\<not> auto_read_enabled c"
  shows "reader_thread_routine m 5 R55 c =
           ([Acquire, Release, Sleep 100], R55, c\<lparr>auto_reader_lock := False\<rparr>)"
  using assms by (simp add: five_steps)


subsection \<open>The operations modelled from the specification\<close>






lemma Transport_fields:
  "send_line Device_transport = Device_send_line"
  "send_character Device_transport = Device_send_character"
  by (simp_all add: Device_transport_def)

lemma Device_fields:
  "is_connected Device_methods = Device_is_connected"
  "disconnect Device_methods = Device_disconnect"
  "read_line Device_methods = Device_read_line"
  "read_all Device_methods = Device_read_all"
  "send_line Device_methods = Device_send_line"
  "send_line_ending_default Device_methods = None"
  "send_character Device_methods = Device_send_character"
  "list_files Device_methods = Device_list_files"
  "write_file Device_methods = Device_write_file"
  "read_file Device_methods = Device_read_file"
  by (simp_all add: Device_methods_def Device_transport_def Connection_methods_def)



lemma paste_not_connected:
  "\<not> connected c \<Longrightarrow> paste Device_transport ls c = (Inl (Exception ''NotConnected''), c)"
  by (simp add: paste_def then_do_def bind_do_def send_start_paste_def
      Transport_fields Device_send_character_def)


lemma call_send_line_ignores_is_connected:
  "call_send_line (m\<lparr>is_connected := ic\<rparr>) = call_send_line m"
  by (simp add: call_send_line_def fun_eq_iff split: option.splits)

section \<open>The claims\<close>

subsection \<open>C1: run_file and the guard\<close>

text \<open>
  C1, as stated: a foreground exchange, and in particular the paste session of
  \<open>run_file\<close>, holds the guard for its whole duration, so in every interleaving with the
  background reader the reader never reads the transport between the start-paste byte and
  the end-paste byte. This fails. In the run below the reader starts, \<open>run_file\<close> sends
  start-paste, the reader then acquires the guard, reads, releases and sleeps, and only
  then \<open>run_file\<close> sends its lines and end-paste.
\<close>

theorem run_file_reader_interleaves:
  "system_run Loopback_methods ''main.py'' ''x=1''
     [Reader, Reader, Foreground, Reader, Reader, Reader, Reader,
      Foreground, Foreground, Foreground, Foreground]
     (F34, R54, Loopback_init) =
   Some
     ([(Foreground, SendCharacter [CHR 0x05]),
       (Reader, Acquire),
       (Reader, ReadLine (Inr (Str []))),
       (Reader, Release),
       (Reader, Sleep 100),
       (Foreground, SendLine ''x=1'' (Some [CHR 0x0D])),
       (Foreground, SendLine ''with open(\"main.py\") as f:'' (Some [CHR 0x0D])),
       (Foreground, SendLine ''    exec(f.read(), globals())'' (Some [CHR 0x0D])),
       (Foreground, SendCharacter [CHR 0x04])],
      FReturned, R55,
      Loopback_init
        \<lparr>reader_running := True,
         written := [[CHR 0x05], ''x=1'' @ [CHR 0x0D],
                     ''with open(\"main.py\") as f:'' @ [CHR 0x0D],
                     ''    exec(f.read(), globals())'' @ [CHR 0x0D], [CHR 0x04]]\<rparr>) \<and>
   reads_in_session False
     [(Foreground, SendCharacter [CHR 0x05]),
       (Reader, Acquire),
       (Reader, ReadLine (Inr (Str []))),
       (Reader, Release),
       (Reader, Sleep 100),
       (Foreground, SendLine ''x=1'' (Some [CHR 0x0D])),
       (Foreground, SendLine ''with open(\"main.py\") as f:'' (Some [CHR 0x0D])),
       (Foreground, SendLine ''    exec(f.read(), globals())'' (Some [CHR 0x0D])),
       (Foreground, SendCharacter [CHR 0x04])]"
  by (simp add: system_step_def after_def send_start_paste_def send_end_paste_def
      call_send_line_def Loopback_methods_def Loopback_init_def Loopback_read_line_def)

text \<open>
  C1, amended: \<open>run_file\<close> neither acquires nor releases the guard and reads nothing. In
  every interleaving of \<open>run_file\<close> with the reader routine, over any transport, every
  event of the foreground is a call of \<open>send_character\<close> or \<open>send_line\<close>, so every
  operation on the guard and every read is the reader's; and a step of \<open>run_file\<close> never
  waits: the thread has no step only when \<open>run_file\<close> has returned or raised.
\<close>

theorem run_file_never_takes_guard:
  "(system_run m file_name globals_init sched s = Some (tr, s') \<longrightarrow>
      list_all (\<lambda>(t, ev). t = Foreground \<longrightarrow> is_send ev) tr) \<and>
   (run_file_step m file_name globals_init pc c = None) =
      (pc = FReturned \<or> (\<exists>e. pc = FRaised e))"
  using system_run_foreground_sends [of m file_name globals_init sched s tr s']
    run_file_step_enabled [of m file_name globals_init pc c]
  by blast

text \<open>
  C1, amended, at a concrete run: right after the start-paste byte of \<open>run_file\<close> the
  reader acquires the guard.
\<close>

theorem run_file_never_takes_guard_witness:
  "system_run Loopback_methods ''main.py'' [] [Foreground, Reader, Reader, Reader]
     (F34, R54, Loopback_init) =
     Some ([(Foreground, SendCharacter [CHR 0x05]), (Reader, Acquire)], F35, R57,
           Loopback_init\<lparr>reader_running := True, auto_reader_lock := True,
                          written := [[CHR 0x05]]\<rparr>) \<and>
   list_all (\<lambda>(t, ev). t = Foreground \<longrightarrow> is_send ev)
     [(Foreground, SendCharacter [CHR 0x05]), (Reader, Acquire)]"
proof -
  have run: "system_run Loopback_methods ''main.py'' [] [Foreground, Reader, Reader, Reader]
      (F34, R54, Loopback_init) =
      Some ([(Foreground, SendCharacter [CHR 0x05]), (Reader, Acquire)], F35, R57,
            Loopback_init\<lparr>reader_running := True, auto_reader_lock := True,
                           written := [[CHR 0x05]]\<rparr>)"
    by (simp add: system_step_def after_def send_start_paste_def Loopback_methods_def
        Loopback_init_def)
  from run_file_never_takes_guard
    [of Loopback_methods "''main.py''" "[]" "[Foreground, Reader, Reader, Reader]"
        "(F34, R54, Loopback_init)"
        "[(Foreground, SendCharacter [CHR 0x05]), (Reader, Acquire)]"
        "(F35, R57, Loopback_init\<lparr>reader_running := True, auto_reader_lock := True,
                                   written := [[CHR 0x05]]\<rparr>)"]
    run
  show ?thesis by blast
qed

subsection \<open>C2: what run_file writes\<close>

text \<open>
  C2: for every file name and every \<open>globals_init\<close>, \<open>run_file\<close> writes to the
  transport, in this order and nothing else: the byte \<open>0x05\<close>; if \<open>globals_init\<close> is not
  empty, \<open>globals_init\<close> followed by the ending \<open>0x0D\<close>; the line
  \<open>with open("<file_name>") as f:\<close> followed by the ending; the line
  \<open>    exec(f.read(), globals())\<close> followed by the ending; the byte \<open>0x04\<close>. It
  returns normally and changes nothing else in the object.
\<close>

theorem run_file_writes:
  "run_file Loopback_methods file_name globals_init c =
     (Inr (), c\<lparr>written := written c @
        [[CHR 0x05]] @
        (if globals_init \<noteq> [] then [globals_init @ [CHR 0x0D]] else []) @
        [''with open(\"'' @ file_name @ ''\") as f:'' @ [CHR 0x0D],
         ''    exec(f.read(), globals())'' @ [CHR 0x0D],
         [CHR 0x04]]\<rparr>)"
  by (simp add: run_file_def format_with_open evaluate_def then_do_def bind_do_def return_def
      send_start_paste_def send_end_paste_def call_send_line_def Loopback_methods_def)

text \<open>
  C2, the scenario: \<open>run_file("main.py", "x=1")\<close> on a fresh transport writes exactly the
  five entries.
\<close>

theorem run_file_main_py:
  "run_file Loopback_methods ''main.py'' ''x=1'' Loopback_init =
     (Inr (), Loopback_init
        \<lparr>written := [[CHR 0x05], ''x=1'' @ [CHR 0x0D],
                     ''with open(\"main.py\") as f:'' @ [CHR 0x0D],
                     ''    exec(f.read(), globals())'' @ [CHR 0x0D], [CHR 0x04]]\<rparr>)"
  using run_file_writes [of "''main.py''" "''x=1''" Loopback_init]
  by (simp add: Loopback_init_def)

subsection \<open>C3: write_file followed by read_file\<close>




subsection \<open>C4: operations on a Connection that is not connected\<close>

text \<open>
  C4: each of \<open>run_file\<close>, \<open>remove_file\<close>, \<open>list_files\<close>, \<open>write_file\<close>,
  \<open>read_file\<close>, \<open>send_line\<close>, \<open>send_character\<close>, \<open>read_line\<close> and \<open>read_all\<close>,
  invoked while the Connection is not connected, fails with \<open>NotConnected\<close> and writes
  nothing to the transport. Over primitives that keep this contract, \<open>run_file\<close> of the
  source keeps it as well, since its first call fails and the error goes up unchanged.
  \<open>remove_file\<close> of the source does not: it leaves out the \<open>ending\<close> that
  \<open>send_line\<close> requires, so Python raises \<open>TypeError\<close> before \<open>send_line\<close> is
  entered (the defect of C9 and C10); nothing is written. Neither method asks
  \<open>is_connected\<close>: with another \<open>is_connected\<close> in its place they do the same, over
  any primitives.
\<close>

theorem unconnected_operations:
  "(\<not> connected c \<longrightarrow>
      run_file Device_methods file_name globals_init c = (Inl (Exception ''NotConnected''), c) \<and>
      list_files Device_methods c = (Inl (Exception ''NotConnected''), c) \<and>
      write_file Device_methods file_name text c = (Inl (Exception ''NotConnected''), c) \<and>
      read_file Device_methods file_name c = (Inl (Exception ''NotConnected''), c) \<and>
      send_line Device_methods line_text ending c = (Inl (Exception ''NotConnected''), c) \<and>
      send_character Device_methods char c = (Inl (Exception ''NotConnected''), c) \<and>
      read_line Device_methods c = (Inl (Exception ''NotConnected''), c) \<and>
      read_all Device_methods c = (Inl (Exception ''NotConnected''), c) \<and>
      remove_file Device_methods file_name c = (Inl TypeError, c)) \<and>
   run_file (m\<lparr>is_connected := ic\<rparr>) file_name globals_init = run_file m file_name globals_init \<and>
   remove_file (m\<lparr>is_connected := ic\<rparr>) file_name = remove_file m file_name"
proof -
  have general: "run_file (m\<lparr>is_connected := ic\<rparr>) file_name globals_init =
        run_file m file_name globals_init"
      "remove_file (m\<lparr>is_connected := ic\<rparr>) file_name = remove_file m file_name"
    by (simp_all add: run_file_def remove_file_def send_start_paste_def send_end_paste_def
        call_send_line_ignores_is_connected del: format_str.simps)
  have "run_file Device_methods file_name globals_init c = (Inl (Exception ''NotConnected''), c)"
    if "\<not> connected c"
    using that
    by (intro run_file_first_failure) (simp add: Device_fields Device_send_character_def)
  moreover have "remove_file Device_methods file_name c = (Inl TypeError, c)"
    by (simp add: remove_file_def format_remove evaluate_def bind_do_def return_def raise_def
        call_send_line_def Device_fields del: format_str.simps)
  ultimately show ?thesis
    using general
    by (simp add: Device_fields Device_list_files_def Device_write_file_def
        Device_read_file_def paste_not_connected then_do_def bind_do_def Device_send_line_def
        Device_send_character_def Device_read_line_def Device_read_all_def)
qed

text \<open>
  C4 at a concrete input: on a Device that was never connected,
  \<open>run_file("main.py", "x=1")\<close> fails with \<open>NotConnected\<close> and
  \<open>remove_file("main.py")\<close> with \<open>TypeError\<close>; nothing is written.
\<close>

theorem unconnected_operations_witness:
  "\<not> connected Device_init \<and>
   run_file Device_methods ''main.py'' ''x=1'' Device_init =
     (Inl (Exception ''NotConnected''), Device_init) \<and>
   remove_file Device_methods ''main.py'' Device_init = (Inl TypeError, Device_init)"
proof -
  have h: "\<not> connected Device_init" by (simp add: Device_init_def)
  from unconnected_operations [of Device_init "''main.py''" "''x=1''"] h
  show ?thesis by blast
qed

subsection \<open>C5: one iteration of the reader loop\<close>

text \<open>
  C5, as stated: every iteration of the reader loop, taken while \<open>_reader_running\<close> is
  true, acquires the guard, calls \<open>read_line\<close> if and only if \<open>_auto_read_enabled\<close> is
  true, releases the guard, and then sleeps 0.1 seconds if no line was obtained and 0
  seconds if a non-empty line was read. This fails for two kinds of iteration. On a
  Connection whose \<open>read_line\<close> raises (here the one of the class itself), the iteration
  ends with the read: no release, no sleep. On a transport whose \<open>read_line\<close> gives the
  empty \<open>bytes\<close> object when there is no line, the iteration sleeps 0 seconds, since
  \<open>b"" == ""\<close> is false.
\<close>

theorem reader_iteration_counterexample:
  "reader_thread_routine Connection_methods 5 R55 (Connection_init\<lparr>reader_running := True\<rparr>) =
     ([Acquire, ReadLine (Inl NotImplementedError)], RRaised NotImplementedError,
      Connection_init\<lparr>reader_running := True, auto_reader_lock := True\<rparr>) \<and>
   reader_thread_routine (Loopback_methods\<lparr>read_line := return (Bytes [])\<rparr>) 5 R55
     (Loopback_init\<lparr>reader_running := True\<rparr>) =
     ([Acquire, ReadLine (Inr (Bytes [])), Release, Sleep 0], R55,
      Loopback_init\<lparr>reader_running := True\<rparr>)"
  by (simp add: five_steps Connection_methods_def Connection_init_def Loopback_methods_def
      Loopback_init_def return_def)

text \<open>
  C5, amended: an iteration of the reader loop taken while \<open>_reader_running\<close> is true,
  with the guard free when the reader asks for it, in which \<open>read_line\<close>, if it is
  called, returns a \<open>str\<close> and leaves the guard locked, performs exactly: acquire the
  guard; one call of \<open>read_line\<close> if and only if \<open>_auto_read_enabled\<close> is true; release
  the guard; sleep 0.1 seconds if the read was skipped or gave the empty string, 0 seconds
  if it gave a non-empty line. The line is not kept: the object after the iteration is
  the one that \<open>read_line\<close> left, with the guard released. The iteration is the five
  steps from the loop test back to the loop test.
\<close>

theorem reader_iteration:
  assumes "reader_running c" and "\<not> auto_reader_lock c"
  shows "if auto_read_enabled c then
           (\<forall>s c'. read_line m (c\<lparr>auto_reader_lock := True\<rparr>) = (Inr (Str s), c') \<and>
                   auto_reader_lock c' \<longrightarrow>
              reader_thread_routine m 5 R55 c =
                ([Acquire, ReadLine (Inr (Str s)), Release, Sleep (if s = [] then 100 else 0)],
                 R55, c'\<lparr>auto_reader_lock := False\<rparr>))
         else
           reader_thread_routine m 5 R55 c =
             ([Acquire, Release, Sleep 100], R55, c\<lparr>auto_reader_lock := False\<rparr>)"
proof (cases "auto_read_enabled c")
  case True
  with routine_iteration_read [OF assms True] show ?thesis by auto
next
  case False
  with routine_iteration_skip [OF assms False] show ?thesis by simp
qed

text \<open>
  C5, amended, at concrete inputs: with the line \<open>>>> \<close> waiting, the iteration reads it
  and sleeps 0 seconds; with nothing waiting, it reads the empty string and sleeps 0.1
  seconds; with \<open>_auto_read_enabled\<close> false, it reads nothing, leaves the waiting line
  where it is and sleeps 0.1 seconds.
\<close>

theorem reader_iteration_witness:
  "reader_running (Loopback_init\<lparr>reader_running := True, inbound := [''>>> '']\<rparr>) \<and>
   \<not> auto_reader_lock (Loopback_init\<lparr>reader_running := True, inbound := [''>>> '']\<rparr>) \<and>
   reader_thread_routine Loopback_methods 5 R55
     (Loopback_init\<lparr>reader_running := True, inbound := [''>>> '']\<rparr>) =
     ([Acquire, ReadLine (Inr (Str ''>>> '')), Release, Sleep 0], R55,
      Loopback_init\<lparr>reader_running := True\<rparr>) \<and>
   reader_thread_routine Loopback_methods 5 R55 (Loopback_init\<lparr>reader_running := True\<rparr>) =
     ([Acquire, ReadLine (Inr (Str [])), Release, Sleep 100], R55,
      Loopback_init\<lparr>reader_running := True\<rparr>) \<and>
   reader_thread_routine Loopback_methods 5 R55
     (Loopback_init\<lparr>reader_running := True, auto_read_enabled := False, inbound := [''>>> '']\<rparr>) =
     ([Acquire, Release, Sleep 100], R55,
      Loopback_init\<lparr>reader_running := True, auto_read_enabled := False, inbound := [''>>> '']\<rparr>)"
proof -
  let ?c = "Loopback_init\<lparr>reader_running := True, inbound := [''>>> '']\<rparr>"
  let ?d = "Loopback_init\<lparr>reader_running := True\<rparr>"
  let ?e = "Loopback_init\<lparr>reader_running := True, auto_read_enabled := False,
                           inbound := [''>>> '']\<rparr>"
  have running: "reader_running ?c" "reader_running ?d" "reader_running ?e"
    and free: "\<not> auto_reader_lock ?c" "\<not> auto_reader_lock ?d" "\<not> auto_reader_lock ?e"
    by (simp_all add: Loopback_init_def)
  have enabled: "auto_read_enabled ?c" "auto_read_enabled ?d" "\<not> auto_read_enabled ?e"
    by (simp_all add: Loopback_init_def)
  have reads_line: "read_line Loopback_methods (?c\<lparr>auto_reader_lock := True\<rparr>) =
      (Inr (Str ''>>> ''), ?d\<lparr>auto_reader_lock := True\<rparr>)"
    by (simp add: Loopback_methods_def Loopback_read_line_def Loopback_init_def)
  have reads_nothing: "read_line Loopback_methods (?d\<lparr>auto_reader_lock := True\<rparr>) =
      (Inr (Str []), ?d\<lparr>auto_reader_lock := True\<rparr>)"
    by (simp add: Loopback_methods_def Loopback_read_line_def Loopback_init_def)
  from reader_iteration [OF running(1) free(1), of Loopback_methods] enabled(1) reads_line
  have first: "reader_thread_routine Loopback_methods 5 R55 ?c =
      ([Acquire, ReadLine (Inr (Str ''>>> '')), Release, Sleep 0], R55, ?d)"
    by (simp add: Loopback_init_def)
  from reader_iteration [OF running(2) free(2), of Loopback_methods] enabled(2) reads_nothing
  have second: "reader_thread_routine Loopback_methods 5 R55 ?d =
      ([Acquire, ReadLine (Inr (Str [])), Release, Sleep 100], R55, ?d)"
    by (simp add: Loopback_init_def)
  from reader_iteration [OF running(3) free(3), of Loopback_methods] enabled(3)
  have third: "reader_thread_routine Loopback_methods 5 R55 ?e =
      ([Acquire, Release, Sleep 100], R55, ?e)"
    by (simp add: Loopback_init_def)
  from running(1) free(1) first second third show ?thesis
    by (simp only: simp_thms)
qed

subsection \<open>C6: stopping the reader\<close>




subsection \<open>C7: a read that raises in the reader\<close>

text \<open>
  C7, as stated: if \<open>read_line\<close> raises during an iteration, the reader clears
  \<open>_reader_running\<close> and stops; afterwards the flag is false and the guard is not left
  held. This fails. On a fresh Connection, whose \<open>read_line\<close> raises
  \<open>NotImplementedError\<close>, the routine ends with that error, the flag still true and the
  guard still locked.
\<close>

theorem reader_read_failure_counterexample:
  "reader_thread_routine Connection_methods 10 R54 Connection_init =
     ([Acquire, ReadLine (Inl NotImplementedError)], RRaised NotImplementedError,
      \<lparr>reader_running = True, auto_read_enabled = True, auto_reader_lock = True\<rparr>)"
  by (simp add: eval_nat_numeral Connection_methods_def Connection_init_def)

text \<open>
  C7, amended: if \<open>read_line\<close> raises during an iteration, nothing in the routine catches
  the error: the routine ends at once with it, makes no further read attempt however long
  it is given, and the object stays exactly as the failed call left it. The routine does
  not clear \<open>_reader_running\<close>, which is still true unless \<open>read_line\<close> itself changed
  it.
\<close>

theorem reader_read_failure_propagates:
  assumes "reader_running c" and "\<not> auto_reader_lock c" and "auto_read_enabled c"
    and "read_line m (c\<lparr>auto_reader_lock := True\<rparr>) = (Inl e, c')"
  shows "reader_thread_routine m (3 + n) R55 c = ([Acquire, ReadLine (Inl e)], RRaised e, c')"
proof -
  have three: "3 + n = Suc (Suc (Suc n))" by simp
  have stays: "reader_thread_routine m n (RRaised e) c' = ([], RRaised e, c')"
    by (cases n) simp_all
  show ?thesis unfolding three using assms stays by simp
qed

text \<open>
  C7, amended, at a concrete input: the reader of a Connection that overrides nothing,
  given ten steps.
\<close>

theorem reader_read_failure_propagates_witness:
  "reader_running (Connection_init\<lparr>reader_running := True\<rparr>) \<and>
   \<not> auto_reader_lock (Connection_init\<lparr>reader_running := True\<rparr>) \<and>
   auto_read_enabled (Connection_init\<lparr>reader_running := True\<rparr>) \<and>
   read_line Connection_methods (Connection_init\<lparr>reader_running := True, auto_reader_lock := True\<rparr>) =
     (Inl NotImplementedError, Connection_init\<lparr>reader_running := True, auto_reader_lock := True\<rparr>) \<and>
   reader_thread_routine Connection_methods (3 + 7) R55 (Connection_init\<lparr>reader_running := True\<rparr>) =
     ([Acquire, ReadLine (Inl NotImplementedError)], RRaised NotImplementedError,
      Connection_init\<lparr>reader_running := True, auto_reader_lock := True\<rparr>)"
proof -
  let ?c = "Connection_init\<lparr>reader_running := True\<rparr>"
  have h1: "reader_running ?c" and h2: "\<not> auto_reader_lock ?c" and h3: "auto_read_enabled ?c"
    by (simp_all add: Connection_init_def)
  have h4: "read_line Connection_methods (?c\<lparr>auto_reader_lock := True\<rparr>) =
      (Inl NotImplementedError, ?c\<lparr>auto_reader_lock := True\<rparr>)"
    by (simp add: Connection_methods_def)
  from reader_read_failure_propagates [OF h1 h2 h3 h4, of 7] h1 h2 h3 h4
  show ?thesis by simp
qed

subsection \<open>C8: disconnect twice\<close>

text \<open>
  C8: \<open>disconnect()\<close> is idempotent. For every Connection, connected or not, two calls in
  a row produce no error and leave \<open>is_connected()\<close> false, and they leave the object as
  one call does; a call while already disconnected changes nothing. This is proved of
  \<open>disconnect\<close> and \<open>is_connected\<close> as the specification describes them; the source
  only declares the two methods.
\<close>

theorem disconnect_idempotent:
  "fst (then_do (disconnect Device_methods) (disconnect Device_methods) c) = Inr () \<and>
   is_connected Device_methods
     (snd (then_do (disconnect Device_methods) (disconnect Device_methods) c)) =
     (Inr False, snd (then_do (disconnect Device_methods) (disconnect Device_methods) c)) \<and>
   then_do (disconnect Device_methods) (disconnect Device_methods) c =
     disconnect Device_methods c \<and>
   (\<not> connected c \<longrightarrow> disconnect Device_methods c = (Inr (), c))"
  by (simp add: Device_fields Device_disconnect_def Device_is_connected_def then_do_def
      bind_do_def)

text \<open>
  C8 at concrete inputs: two calls on a connected Device whose reader is running leave
  it disconnected with the reader flag cleared, and a call on that Device changes
  nothing.
\<close>

theorem disconnect_idempotent_witness:
  "then_do (disconnect Device_methods) (disconnect Device_methods)
     (Device_init\<lparr>reader_running := True, connected := True\<rparr>) =
     (Inr (), Device_init) \<and>
   is_connected Device_methods Device_init = (Inr False, Device_init) \<and>
   \<not> connected Device_init \<and>
   disconnect Device_methods Device_init = (Inr (), Device_init)"
proof -
  have h: "\<not> connected Device_init" by (simp add: Device_init_def)
  have once: "disconnect Device_methods (Device_init\<lparr>reader_running := True, connected := True\<rparr>) =
      (Inr (), Device_init)"
    by (simp add: Device_fields Device_disconnect_def Device_init_def)
  have query: "is_connected Device_methods Device_init = (Inr False, Device_init)"
    by (simp add: Device_fields Device_is_connected_def Device_init_def)
  from disconnect_idempotent [of "Device_init\<lparr>reader_running := True, connected := True\<rparr>"]
    disconnect_idempotent [of Device_init] h once query
  show ?thesis by simp
qed

subsection \<open>C9 and C10: remove_file\<close>

text \<open>
  C9: \<open>remove_file(file_name)\<close> sends the statement
  \<open>import os; os.remove("<file_name>")\<close>, the file name put in as it is, and nothing
  else. The code does not do this where \<open>send_line\<close> has the signature that the class
  declares: \<open>remove_file("main.py")\<close> on the transport raises \<open>TypeError\<close> before
  anything is written.
\<close>

theorem remove_file_raises_before_sending:
  "remove_file Loopback_methods ''main.py'' Loopback_init = (Inl TypeError, Loopback_init)"
  by (simp add: remove_file_def evaluate_def bind_do_def return_def raise_def
      call_send_line_def Loopback_methods_def Connection_methods_def)

text \<open>
  C10: \<open>remove_file\<close> calls \<open>send_line\<close> with the statement text only, the file name
  put in as it is, and gives no ending. So wherever \<open>send_line\<close> requires its
  \<open>ending\<close>, every call of \<open>remove_file\<close> raises the missing-argument \<open>TypeError\<close>
  and leaves the object as it was.
\<close>

theorem remove_file_missing_ending:
  "remove_file m file_name =
     call_send_line m (''import os; os.remove(\"'' @ file_name @ ''\")'') None \<and>
   (send_line_ending_default m = None \<longrightarrow> remove_file m file_name c = (Inl TypeError, c))"
  by (simp add: remove_file_def format_remove evaluate_def bind_do_def return_def raise_def
      call_send_line_def del: format_str.simps)

text \<open>
  C10 at a concrete input: \<open>Connection\<close> itself declares \<open>send_line\<close> without a default
  for \<open>ending\<close>, and \<open>remove_file("boot.py")\<close> on a fresh Connection raises
  \<open>TypeError\<close>.
\<close>

theorem remove_file_missing_ending_witness:
  "send_line_ending_default (Connection_methods :: Connection methods) = None \<and>
   remove_file Connection_methods ''boot.py'' Connection_init = (Inl TypeError, Connection_init)"
proof -
  have required: "send_line_ending_default (Connection_methods :: Connection methods) = None"
    by (simp add: Connection_methods_def)
  from remove_file_missing_ending [of Connection_methods "''boot.py''" Connection_init] required
  show ?thesis by blast
qed

end
